theory Spec2Isabelle
  imports Complex_Main
begin

section \<open>Values exchanged with the platform\<close>

text \<open>
  The console's agent client (\<^verbatim>\<open>useAkashAgent.ts\<close>), its relay route
  (\<^verbatim>\<open>pages/api/akash-agent/stream.ts\<close>) and its chat store
  (\<^verbatim>\<open>store/agentStore.ts\<close>) are embedded below. Text is a list of
  characters; a chunk is the text the decoder hands over for one read. Console output,
  toasts and the connection-status atom do not influence control flow and are left out.

  A value produced by \<^verbatim>\<open>JSON.parse\<close>: a number is finite, so it is a rational;
  an object is the list of its own properties. Reading a property that is not there gives
  \<^verbatim>\<open>undefined\<close>, which is \<open>None\<close> here. \<^verbatim>\<open>JSON.parse\<close>,
  \<^verbatim>\<open>JSON.stringify\<close> and the clock belong to the platform and are parameters of the
  functions that call them.
\<close>

datatype json =
    JNull
  | JBool bool
  | JNum rat
  | JStr string
  | JArr "json list"
  | JObj "(string \<times> json) list"

text \<open>
  \<^verbatim>\<open>data.k\<close> on a value that is not \<^verbatim>\<open>null\<close>. The names the code reads
  (\<^verbatim>\<open>type\<close>, \<^verbatim>\<open>action\<close>, \<^verbatim>\<open>response\<close>, \<^verbatim>\<open>message\<close>)
  are defined on no prototype, so only an object's own properties answer.
\<close>

fun field :: "json \<Rightarrow> string \<Rightarrow> json option" where
  "field (JObj kvs) k = map_of kvs k"
| "field _ k = None"

text \<open>JavaScript's truthiness, as the guards \<^verbatim>\<open>if (data.action)\<close> and \<^verbatim>\<open>||\<close> read it.\<close>

fun truthy :: "json option \<Rightarrow> bool" where
  "truthy None = False"
| "truthy (Some JNull) = False"
| "truthy (Some (JBool b)) = b"
| "truthy (Some (JNum q)) = (q \<noteq> 0)"
| "truthy (Some (JStr s)) = (s \<noteq> [])"
| "truthy (Some (JArr vs)) = True"
| "truthy (Some (JObj kvs)) = True"

text \<open>\<^verbatim>\<open>v || d\<close> for a property read \<open>v\<close> and a default \<open>d\<close>.\<close>

fun or_default :: "json option \<Rightarrow> json \<Rightarrow> json" where
  "or_default None d = d"
| "or_default (Some v) d = (if truthy (Some v) then v else d)"

subsection \<open>Strings: \<^verbatim>\<open>split('\n')\<close> and \<^verbatim>\<open>trim()\<close>\<close>

definition newline :: char where
  "newline = CHR 0x0A"

text \<open>
  \<^verbatim>\<open>s.split('\n')\<close>: the pieces between line feeds, the piece after the last one
  included, so the result is never empty. \<open>split_from cur s\<close> is the split of
  \<open>s\<close> with \<open>cur\<close> already read into the first piece.
\<close>

fun split_from :: "string \<Rightarrow> string \<Rightarrow> string list" where
  "split_from cur [] = [cur]"
| "split_from cur (c # cs) =
     (if c = newline then cur # split_from [] cs else split_from (cur @ [c]) cs)"

definition split_newline :: "string \<Rightarrow> string list" where
  "split_newline s = split_from [] s"

text \<open>
  \<^verbatim>\<open>trim()\<close> removes white space and line terminators from both ends. Of the
  characters a \<open>char\<close> can hold these are tab, line feed, vertical tab, form feed,
  carriage return, space and the no-break space.
\<close>

definition is_space :: "char \<Rightarrow> bool" where
  "is_space c \<longleftrightarrow> c \<in> set [CHR 0x09, CHR 0x0A, CHR 0x0B, CHR 0x0C, CHR 0x0D, CHR 0x20, CHR 0xA0]"

definition trim :: "string \<Rightarrow> string" where
  "trim s = rev (dropWhile is_space (rev (dropWhile is_space s)))"

section \<open>The streaming client: \<^verbatim>\<open>sendStreamingMessage\<close>\<close>

text \<open>
  The local variables of the call, and the invocations of \<^verbatim>\<open>onAction\<close> made so
  far (oldest first), each with the action and the count it was given.
\<close>

record locals =
  actionCount :: nat
  finalResponse :: json
  buffer :: string
  delivered :: "(json \<times> nat) list"

text \<open>What the callback does when invoked: it returns, or it throws.\<close>

datatype callback_result = Returns | Throws

text \<open>
  What the \<^verbatim>\<open>try\<close> block around one line can throw: the syntax error of
  \<^verbatim>\<open>JSON.parse\<close>, the type error of reading \<^verbatim>\<open>.type\<close> of \<^verbatim>\<open>null\<close>,
  the \<^verbatim>\<open>new Error(v)\<close> of an \<^verbatim>\<open>error\<close> record, or whatever the callback threw.
\<close>

datatype thrown = SyntaxError | TypeError | AgentError json | CallbackError

text \<open>
  The body of the \<^verbatim>\<open>try\<close> block for one trimmed, non-empty line: the locals as they
  are when the block is left, and what it threw, if anything. \<^verbatim>\<open>JSON.parse\<close> is a
  parameter (\<open>None\<close> when it throws); so is the callback.
\<close>

definition try_line ::
  "(string \<Rightarrow> json option) \<Rightarrow> (json \<Rightarrow> nat \<Rightarrow> callback_result) \<Rightarrow> locals \<Rightarrow> string
     \<Rightarrow> locals \<times> thrown option" where
  "try_line JSON_parse onAction st trimmedLine =
     (case JSON_parse trimmedLine of
        None \<Rightarrow> (st, Some SyntaxError)
      | Some data \<Rightarrow>
          if data = JNull then (st, Some TypeError)
          else if field data ''type'' = Some (JStr ''action'') then
            (case field data ''action'' of
               None \<Rightarrow> (st, None)
             | Some a \<Rightarrow>
                 if truthy (Some a) then
                   (let n = actionCount st + 1;
                        st' = st\<lparr>actionCount := n, delivered := delivered st @ [(a, n)]\<rparr>
                    in (st', case onAction a n of Returns \<Rightarrow> None | Throws \<Rightarrow> Some CallbackError))
                 else (st, None))
          else if field data ''type'' = Some (JStr ''final_response'') then
            (case field data ''response'' of
               None \<Rightarrow> (st, None)
             | Some r \<Rightarrow>
                 if truthy (Some r) then (st\<lparr>finalResponse := r\<rparr>, None) else (st, None))
          else if field data ''type'' = Some (JStr ''error'') then
            (st, Some (AgentError (or_default (field data ''message'') (JStr ''Agent error''))))
          else (st, None))"

text \<open>
  One round of the \<^verbatim>\<open>for\<close> loop: blank lines are skipped; the \<^verbatim>\<open>catch\<close> block
  of the \<^verbatim>\<open>try\<close> only warns on the console, whatever was thrown, and the loop goes on.
\<close>

definition process_line ::
  "(string \<Rightarrow> json option) \<Rightarrow> (json \<Rightarrow> nat \<Rightarrow> callback_result) \<Rightarrow> locals \<Rightarrow> string \<Rightarrow> locals" where
  "process_line JSON_parse onAction st line =
     (let trimmedLine = trim line
      in if trimmedLine = [] then st
         else (case try_line JSON_parse onAction st trimmedLine of
                 (st', None) \<Rightarrow> st'
               | (st', Some parseError) \<Rightarrow> st'))"

text \<open>
  The \<^verbatim>\<open>while\<close> loop over the chunks read before \<^verbatim>\<open>done\<close>: the chunk is appended
  to the buffer, the buffer is split, the last piece goes back to the buffer
  (\<^verbatim>\<open>lines.pop() || ''\<close>) and the other pieces are processed in order.
\<close>

fun read_loop ::
  "(string \<Rightarrow> json option) \<Rightarrow> (json \<Rightarrow> nat \<Rightarrow> callback_result) \<Rightarrow> locals \<Rightarrow> string list \<Rightarrow> locals" where
  "read_loop JSON_parse onAction st [] = st"
| "read_loop JSON_parse onAction st (chunk # rest) =
     (let lines = split_newline (buffer st @ chunk);
          st1 = st\<lparr>buffer := (if lines = [] then [] else last lines)\<rparr>
      in read_loop JSON_parse onAction
           (foldl (process_line JSON_parse onAction) st1 (butlast lines)) rest)"

text \<open>
  After the loop (\<^verbatim>\<open>// Process any remaining buffer content\<close>): the buffer, when it
  is not blank, is parsed, and only a \<^verbatim>\<open>final_response\<close> with a truthy response is
  acted on. Both exceptions of the block are caught and only logged.
\<close>

definition process_remaining :: "(string \<Rightarrow> json option) \<Rightarrow> locals \<Rightarrow> locals" where
  "process_remaining JSON_parse st =
     (if trim (buffer st) \<noteq> [] then
        (case JSON_parse (trim (buffer st)) of
           None \<Rightarrow> st
         | Some data \<Rightarrow>
             if data = JNull then st
             else if field data ''type'' = Some (JStr ''final_response'')
                     \<and> truthy (field data ''response'')
                  then (case field data ''response'' of
                          Some r \<Rightarrow> st\<lparr>finalResponse := r\<rparr>
                        | None \<Rightarrow> st)
                  else st)
      else st)"

text \<open>
  An exception that leaves the function. \<open>Error m\<close> is any instance of
  \<^verbatim>\<open>Error\<close> with message \<open>m\<close>; \<open>NonError\<close> is a thrown value that is not one.
\<close>

datatype exn = Error string | NonError

text \<open>
  The body of a response: the chunks its reader yields, and how the reads end: with
  \<^verbatim>\<open>done\<close> (\<open>None\<close>) or with a rejected read.
\<close>

record response =
  ok :: bool
  status :: nat
  statusText :: string
  body :: "(string list \<times> exn option) option"

datatype fetched = Rejects exn | Resolves response

text \<open>Decimal digits of a number, as a template literal prints a status code.\<close>

fun decimal :: "nat \<Rightarrow> string" where
  "decimal n =
     (if n < 10 then [''0123456789'' ! n]
      else decimal (n div 10) @ [''0123456789'' ! (n mod 10)])"

declare decimal.simps [simp del]

text \<open>
  What a call leaves behind: the callback invocations it made, and its result, the returned
  \<^verbatim>\<open>finalResponse\<close> or the exception it threw.
\<close>

record outcome =
  invocations :: "(json \<times> nat) list"
  result :: "exn + json"

definition initial :: locals where
  "initial = \<lparr>actionCount = 0, finalResponse = JStr [], buffer = [], delivered = []\<rparr>"

text \<open>
  The whole call, given what \<^verbatim>\<open>fetch\<close> settles to. The outer \<^verbatim>\<open>catch\<close> reports
  the error to the user and throws it again.
\<close>

definition sendStreamingMessage ::
  "(string \<Rightarrow> json option) \<Rightarrow> (json \<Rightarrow> nat \<Rightarrow> callback_result) \<Rightarrow> string \<Rightarrow> fetched \<Rightarrow> outcome" where
  "sendStreamingMessage JSON_parse onAction message fetch =
     (if trim message = [] then
        \<lparr>invocations = [], result = Inl (Error ''Message cannot be empty'')\<rparr>
      else
        (case fetch of
           Rejects e \<Rightarrow> \<lparr>invocations = [], result = Inl e\<rparr>
         | Resolves response \<Rightarrow>
             if \<not> ok response then
               \<lparr>invocations = [],
                result = Inl (Error (''HTTP '' @ decimal (status response) @ '': ''
                                       @ statusText response))\<rparr>
             else
               (case body response of
                  None \<Rightarrow> \<lparr>invocations = [], result = Inl (Error ''No response stream available'')\<rparr>
                | Some (chunks, ending) \<Rightarrow>
                    (let st = read_loop JSON_parse onAction initial chunks
                     in case ending of
                          Some e \<Rightarrow> \<lparr>invocations = delivered st, result = Inl e\<rparr>
                        | None \<Rightarrow>
                            (let st' = process_remaining JSON_parse st
                             in \<lparr>invocations = delivered st',
                                 result = Inr (finalResponse st')\<rparr>)))))"

section \<open>The relay route: \<^verbatim>\<open>handler\<close> of \<^verbatim>\<open>stream.ts\<close>\<close>

text \<open>
  The request. Its body is whatever the body parser produced: \<open>None\<close> stands for a body
  that is \<^verbatim>\<open>null\<close> or \<^verbatim>\<open>undefined\<close>, which cannot be destructured; any other body
  is read through the three properties the handler takes from it. The handler itself tests
  what \<^verbatim>\<open>message\<close> is, so that property is any value or absent; the timeout is only
  passed on.
\<close>

record agent_config =
  agent_id :: "string option"
  api_key :: "string option"
  base_url :: "string option"

record stream_request =
  message :: "json option"
  timeout :: "json option"
  agent_config :: "agent_config option"

record api_request =
  req_method :: "string option"
  req_body :: "stream_request option"

text \<open>The variables of \<^verbatim>\<open>process.env\<close> that the handler reads.\<close>

record environment =
  AGENT_ID :: "string option"
  AGENT_BASE_URL :: "string option"
  AGENT_PROXY_URL :: "string option"

text \<open>
  What the handler does to the outside, in order. \<open>StatusJson n v\<close> is
  \<^verbatim>\<open>res.status(n).json(v)\<close>, which sends the body and ends the response;
  \<open>Fetch url headers text\<close> is the upstream \<^verbatim>\<open>POST\<close>; \<open>ThrowsTypeError\<close>
  is the handler leaving with the uncaught type error of destructuring a body that is
  \<^verbatim>\<open>null\<close> or \<^verbatim>\<open>undefined\<close>, having written nothing.
\<close>

datatype effect =
    StatusJson nat json
  | ThrowsTypeError
  | WriteHead nat "(string \<times> string) list"
  | Fetch string "(string \<times> string) list" string
  | Write string
  | ReleaseLock
  | End

text \<open>\<^verbatim>\<open>a || b\<close> on strings that may be undefined: the empty string is falsy.\<close>

fun or_string :: "string option \<Rightarrow> string option \<Rightarrow> string option" where
  "or_string None b = b"
| "or_string (Some a) b = (if a \<noteq> [] then Some a else b)"

text \<open>\<^verbatim>\<open>agent_config?.f\<close>\<close>

fun optional :: "agent_config option \<Rightarrow> (agent_config \<Rightarrow> string option) \<Rightarrow> string option" where
  "optional None f = None"
| "optional (Some c) f = f c"

definition stream_headers :: "(string \<times> string) list" where
  "stream_headers =
     [(''Content-Type'', ''text/plain; charset=utf-8''),
      (''Transfer-Encoding'', ''chunked''),
      (''Cache-Control'', ''no-cache, no-store, must-revalidate''),
      (''Connection'', ''keep-alive''),
      (''Access-Control-Allow-Origin'', ''*''),
      (''Access-Control-Allow-Methods'', ''POST''),
      (''Access-Control-Allow-Headers'', ''Content-Type'')]"

text \<open>
  The \<^verbatim>\<open>catch\<close> block of the handler: one record of type \<^verbatim>\<open>error\<close>, with the
  message of the error (or a fixed text for a thrown value that is no \<^verbatim>\<open>Error\<close>) and
  the time, written as one line. \<^verbatim>\<open>JSON.stringify\<close> and the clock are parameters.
\<close>

definition errorData :: "nat \<Rightarrow> exn \<Rightarrow> json" where
  "errorData now e =
     JObj [(''type'', JStr ''error''),
           (''message'', JStr (case e of Error m \<Rightarrow> m | NonError \<Rightarrow> ''Agent communication failed'')),
           (''timestamp'', JNum (of_nat now))]"

definition catch_block :: "(json \<Rightarrow> string) \<Rightarrow> nat \<Rightarrow> exn \<Rightarrow> effect list" where
  "catch_block JSON_stringify now e = [Write (JSON_stringify (errorData now e) @ [newline])]"

text \<open>
  The \<^verbatim>\<open>try\<close> block after the upstream \<^verbatim>\<open>fetch\<close> has settled, with its
  \<^verbatim>\<open>catch\<close>: every chunk read is written on as it is; the reader's lock is released
  when the inner loop is left, by \<^verbatim>\<open>done\<close> or by a rejected read.
\<close>

definition relay :: "(json \<Rightarrow> string) \<Rightarrow> nat \<Rightarrow> fetched \<Rightarrow> effect list" where
  "relay JSON_stringify now agentResponse =
     (case agentResponse of
        Rejects e \<Rightarrow> catch_block JSON_stringify now e
      | Resolves r \<Rightarrow>
          if \<not> ok r then
            catch_block JSON_stringify now
              (Error (''Agent proxy error: '' @ decimal (status r) @ '' '' @ statusText r))
          else
            (case body r of
               None \<Rightarrow>
                 catch_block JSON_stringify now (Error ''No response stream available from agent'')
             | Some (chunks, ending) \<Rightarrow>
                 map Write chunks @ [ReleaseLock]
                   @ (case ending of None \<Rightarrow> [] | Some e \<Rightarrow> catch_block JSON_stringify now e)))"

text \<open>\<^verbatim>\<open>res.status(n).json({ error: msg })\<close>\<close>

definition reject :: "nat \<Rightarrow> string \<Rightarrow> effect list" where
  "reject n msg = [StatusJson n (JObj [(''error'', JStr msg)])]"

text \<open>
  The upstream request: the \<^verbatim>\<open>Authorization\<close> header is there when the key is truthy;
  \<^verbatim>\<open>JSON.stringify\<close> leaves out \<^verbatim>\<open>agent_id\<close> when it is undefined; the timeout
  defaults to 14400.
\<close>

definition upstream_fetch ::
  "(json \<Rightarrow> string) \<Rightarrow> string \<Rightarrow> json option \<Rightarrow> string option \<Rightarrow> string option \<Rightarrow> string
     \<Rightarrow> effect" where
  "upstream_fetch JSON_stringify m t apiKey agentId baseUrl =
     Fetch (baseUrl @ ''/stream'')
       ([(''Content-Type'', ''application/json''), (''Accept'', ''text/plain'')]
          @ (case apiKey of
               None \<Rightarrow> []
             | Some k \<Rightarrow> if k \<noteq> [] then [(''Authorization'', ''Bearer '' @ k)] else []))
       (JSON_stringify
          (JObj ([(''message'', JStr (trim m)),
                  (''timeout'', (case t of None \<Rightarrow> JNum 14400 | Some v \<Rightarrow> v))]
                 @ (case agentId of None \<Rightarrow> [] | Some a \<Rightarrow> [(''agent_id'', JStr a)])
                 @ [(''base_url'', JStr baseUrl)])))"

text \<open>
  After the method, the message and the base address have been checked, the headers are
  sent, the upstream request is made, and the response is ended whatever happened.
\<close>

definition stream_to ::
  "(json \<Rightarrow> string) \<Rightarrow> nat \<Rightarrow> environment \<Rightarrow> stream_request \<Rightarrow> string \<Rightarrow> fetched \<Rightarrow> effect list" where
  "stream_to JSON_stringify now env b m agentResponse =
     (let agentId = or_string (optional (agent_config b) agent_id) (AGENT_ID env);
          baseUrl = or_string (optional (agent_config b) base_url)
                      (or_string (AGENT_BASE_URL env) (AGENT_PROXY_URL env))
      in case baseUrl of
           None \<Rightarrow>
             reject 500
               ''Agent configuration missing. AGENT_BASE_URL or AGENT_PROXY_URL environment variable required.''
         | Some url \<Rightarrow>
             if url = [] then
               reject 500
                 ''Agent configuration missing. AGENT_BASE_URL or AGENT_PROXY_URL environment variable required.''
             else
               [WriteHead 200 stream_headers,
                upstream_fetch JSON_stringify m (timeout b) (optional (agent_config b) api_key)
                  agentId url]
                 @ relay JSON_stringify now agentResponse @ [End])"

text \<open>
  The handler once the body has been destructured: the check of the message, then the
  stream.
\<close>

definition handle_body ::
  "(json \<Rightarrow> string) \<Rightarrow> nat \<Rightarrow> environment \<Rightarrow> stream_request \<Rightarrow> fetched \<Rightarrow> effect list" where
  "handle_body JSON_stringify now env b agentResponse =
     (case message b of
        Some (JStr m) \<Rightarrow>
          if m = [] \<or> trim m = [] then
            reject 400 ''Message is required and must be a non-empty string''
          else stream_to JSON_stringify now env b m agentResponse
      | _ \<Rightarrow> reject 400 ''Message is required and must be a non-empty string'')"

text \<open>
  The handler: the method is checked first; then the body is destructured, outside any
  \<^verbatim>\<open>try\<close>, which throws when the body is \<^verbatim>\<open>null\<close> or \<^verbatim>\<open>undefined\<close>.
\<close>

definition handler ::
  "(json \<Rightarrow> string) \<Rightarrow> nat \<Rightarrow> environment \<Rightarrow> api_request \<Rightarrow> fetched \<Rightarrow> effect list" where
  "handler JSON_stringify now env req agentResponse =
     (if req_method req \<noteq> Some ''POST'' then reject 405 ''Method not allowed''
      else
        (case req_body req of
           None \<Rightarrow> [ThrowsTypeError]
         | Some b \<Rightarrow> handle_body JSON_stringify now env b agentResponse))"

section \<open>The chat store: \<^verbatim>\<open>agentStore.ts\<close>\<close>

text \<open>A chat message, and the atoms of the store that hold the conversation.\<close>

datatype sender = User | Agent

record ChatMessage =
  id_of :: string
  type_of :: sender
  content :: string
  timestamp :: nat
  status_of :: "string option"
  sdl :: "string option"
  actionType :: "string option"
  sequenceIndex :: "int option"

record store =
  chatMessagesAtom :: "ChatMessage list"
  chatInputAtom :: string
  isAgentTypingAtom :: bool
  currentConversationAtom :: "string option"
  generatedSDLAtom :: "string option"

text \<open>The write function of \<^verbatim>\<open>addMessageAtom\<close>.\<close>

definition addMessageAtom :: "store \<Rightarrow> ChatMessage \<Rightarrow> store" where
  "addMessageAtom st m = st\<lparr>chatMessagesAtom := chatMessagesAtom st @ [m]\<rparr>"

section \<open>Auxiliary notions and sample inputs\<close>

text \<open>
  The loop invariant of the arrival counter: the counts handed to the callback so far are
  \<open>1, 2, \<dots>, actionCount\<close>.
\<close>

definition counted :: "locals \<Rightarrow> bool" where
  "counted st \<longleftrightarrow> map snd (delivered st) = map Suc [0..<actionCount st]"

text \<open>
  The response a line stores in \<^verbatim>\<open>finalResponse\<close>, if it stores one: the line is not
  blank, parses to a record of type \<^verbatim>\<open>final_response\<close>, and its response is truthy.
\<close>

definition final_response_of :: "(string \<Rightarrow> json option) \<Rightarrow> string \<Rightarrow> json option" where
  "final_response_of JSON_parse line =
     (if trim line = [] then None
      else (case JSON_parse (trim line) of
              None \<Rightarrow> None
            | Some data \<Rightarrow>
                if data \<noteq> JNull \<and> field data ''type'' = Some (JStr ''final_response'')
                   \<and> truthy (field data ''response'')
                then field data ''response'' else None))"

text \<open>
  The action a line hands to the callback, if it hands one over: the line is not blank,
  parses to a record of type \<^verbatim>\<open>action\<close>, and its action is truthy.
\<close>

definition action_of :: "(string \<Rightarrow> json option) \<Rightarrow> string \<Rightarrow> json option" where
  "action_of JSON_parse line =
     (if trim line = [] then None
      else (case JSON_parse (trim line) of
              None \<Rightarrow> None
            | Some data \<Rightarrow>
                if data \<noteq> JNull \<and> field data ''type'' = Some (JStr ''action'')
                   \<and> truthy (field data ''action'')
                then field data ''action'' else None))"

text \<open>A response that succeeded, whose body yields the given chunks and then \<^verbatim>\<open>done\<close>.\<close>

definition streaming :: "string list \<Rightarrow> fetched" where
  "streaming chunks = Resolves \<lparr>ok = True, status = 200, statusText = ''OK'', body = Some (chunks, None)\<rparr>"

text \<open>
  Lines of the wire format used in the examples, and \<^verbatim>\<open>JSON.parse\<close> on them. Every
  other text the examples hand to the parser (\<^verbatim>\<open>not json\<close>) is no JSON text.
\<close>

definition action_line :: string where
  \<open>action_line = ''{"type":"action","action":{"command":"chat","sequence_index":7}}''\<close>

definition action_value :: json where
  "action_value = JObj [(''command'', JStr ''chat''), (''sequence_index'', JNum 7)]"

text \<open>Actions whose \<^verbatim>\<open>sequence_index\<close> goes backwards, and is missing.\<close>

definition earlier_action_line :: string where
  \<open>earlier_action_line = ''{"type":"action","action":{"command":"read_file","sequence_index":3}}''\<close>

definition earlier_action_value :: json where
  "earlier_action_value = JObj [(''command'', JStr ''read_file''), (''sequence_index'', JNum 3)]"

definition unnumbered_action_line :: string where
  \<open>unnumbered_action_line = ''{"type":"action","action":{"command":"complete"}}''\<close>

definition unnumbered_action_value :: json where
  "unnumbered_action_value = JObj [(''command'', JStr ''complete'')]"

definition bare_action_line :: string where
  \<open>bare_action_line = ''{"type":"action"}''\<close>

definition final_line :: string where
  \<open>final_line = ''{"type":"final_response","response":"Done"}''\<close>

definition second_final_line :: string where
  \<open>second_final_line = ''{"type":"final_response","response":"Second"}''\<close>

definition empty_final_line :: string where
  \<open>empty_final_line = ''{"type":"final_response","response":""}''\<close>

definition error_line :: string where
  \<open>error_line = ''{"type":"error","message":"boom"}''\<close>

definition ping_line :: string where
  \<open>ping_line = ''{"type":"ping"}''\<close>

definition sample_parse :: "string \<Rightarrow> json option" where
  "sample_parse =
     map_of
       [(action_line, JObj [(''type'', JStr ''action''), (''action'', action_value)]),
        (earlier_action_line,
           JObj [(''type'', JStr ''action''), (''action'', earlier_action_value)]),
        (unnumbered_action_line,
           JObj [(''type'', JStr ''action''), (''action'', unnumbered_action_value)]),
        (bare_action_line, JObj [(''type'', JStr ''action'')]),
        (final_line, JObj [(''type'', JStr ''final_response''), (''response'', JStr ''Done'')]),
        (second_final_line,
           JObj [(''type'', JStr ''final_response''), (''response'', JStr ''Second'')]),
        (empty_final_line, JObj [(''type'', JStr ''final_response''), (''response'', JStr [])]),
        (error_line, JObj [(''type'', JStr ''error''), (''message'', JStr ''boom'')]),
        (ping_line, JObj [(''type'', JStr ''ping'')])]"

text \<open>
  A request to the relay, an environment without any of the variables, and
  \<^verbatim>\<open>JSON.stringify\<close> on the values the examples hand to it.
\<close>

definition sample_request :: api_request where
  "sample_request =
     \<lparr>req_method = Some ''POST'',
      req_body = Some \<lparr>message = Some (JStr ''Deploy nginx''), timeout = None,
                  agent_config = Some \<lparr>agent_id = None, api_key = None,
                                        base_url = Some ''http://agent.test''\<rparr>\<rparr>\<rparr>"

definition no_environment :: environment where
  "no_environment = \<lparr>AGENT_ID = None, AGENT_BASE_URL = None, AGENT_PROXY_URL = None\<rparr>"

definition sample_upstream_body :: json where
  "sample_upstream_body =
     JObj [(''message'', JStr ''Deploy nginx''), (''timeout'', JNum 14400),
           (''base_url'', JStr ''http://agent.test'')]"

definition sample_stringify :: "json \<Rightarrow> string" where
  \<open>sample_stringify v =
     (if v = sample_upstream_body then
        ''{"message":"Deploy nginx","timeout":14400,"base_url":"http://agent.test"}''
      else if v = errorData 1719676117000 (Error ''fetch failed'') then
        ''{"type":"error","message":"fetch failed","timestamp":1719676117000}''
      else if v = errorData 1719676117000 (Error ''Agent proxy error: 502 Bad Gateway'') then
        ''{"type":"error","message":"Agent proxy error: 502 Bad Gateway","timestamp":1719676117000}''
      else if v = errorData 1719676117000 (Error ''No response stream available from agent'') then
        ''{"type":"error","message":"No response stream available from agent","timestamp":1719676117000}''
      else [])\<close>

definition returning :: "json \<Rightarrow> nat \<Rightarrow> callback_result" where
  "returning a n = Returns"

section \<open>Line framing\<close>

lemma split_from_nonempty: "split_from cur s \<noteq> []"
  by (induction s arbitrary: cur) auto

lemma split_newline_nonempty: "split_newline s \<noteq> []"
  by (simp add: split_newline_def split_from_nonempty)

lemma split_from_append:
  "split_from cur (a @ b) = butlast (split_from cur a) @ split_from (last (split_from cur a)) b"
  by (induction a arbitrary: cur) (auto simp: split_from_nonempty)

lemma split_from_last_no_newline:
  "newline \<notin> set cur \<Longrightarrow> newline \<notin> set (last (split_from cur s))"
  by (induction s arbitrary: cur) (auto simp: split_from_nonempty)

lemma split_from_no_newline:
  "newline \<notin> set x \<Longrightarrow> split_from cur (x @ s) = split_from (cur @ x) s"
  by (induction x arbitrary: cur) auto

lemma try_line_buffer:
  "try_line P cb (st\<lparr>buffer := b\<rparr>) l = (case try_line P cb st l of (s, e) \<Rightarrow> (s\<lparr>buffer := b\<rparr>, e))"
  by (simp add: try_line_def Let_def split: option.splits)

lemma process_line_buffer:
  "process_line P cb (st\<lparr>buffer := b\<rparr>) l = (process_line P cb st l)\<lparr>buffer := b\<rparr>"
  by (simp add: process_line_def try_line_buffer Let_def split: prod.splits option.splits)

lemma foldl_process_line_buffer:
  "foldl (process_line P cb) (st\<lparr>buffer := b\<rparr>) ls = (foldl (process_line P cb) st ls)\<lparr>buffer := b\<rparr>"
  by (induction ls arbitrary: st) (simp_all add: process_line_buffer)

lemma read_loop_concat:
  "newline \<notin> set (buffer st) \<Longrightarrow>
   read_loop P cb st cs =
     (foldl (process_line P cb) st (butlast (split_newline (buffer st @ concat cs))))
       \<lparr>buffer := last (split_newline (buffer st @ concat cs))\<rparr>"
proof (induction cs arbitrary: st)
  case Nil
  have "split_newline (buffer st) = [buffer st]"
    using split_from_no_newline [OF Nil, of "[]" "[]"] by (simp add: split_newline_def)
  then show ?case by simp
next
  case (Cons c cs)
  define L where "L = split_newline (buffer st @ c)"
  define st2 where "st2 = foldl (process_line P cb) (st\<lparr>buffer := last L\<rparr>) (butlast L)"
  have L: "L \<noteq> []" by (simp add: L_def split_newline_nonempty)
  have nl: "newline \<notin> set (last L)"
    unfolding L_def split_newline_def by (rule split_from_last_no_newline) simp
  have b2: "buffer st2 = last L"
    by (simp add: st2_def foldl_process_line_buffer)
  have step: "read_loop P cb st (c # cs) = read_loop P cb st2 cs"
    using L by (simp add: L_def st2_def Let_def)
  have whole: "split_newline (buffer st @ concat (c # cs))
      = butlast L @ split_newline (last L @ concat cs)"
    using split_from_append [of "[]" "buffer st @ c" "concat cs"]
      split_from_no_newline [OF nl, of "[]" "concat cs"]
    by (simp add: L_def split_newline_def)
  have ih: "read_loop P cb st2 cs =
     (foldl (process_line P cb) st2 (butlast (split_newline (last L @ concat cs))))
       \<lparr>buffer := last (split_newline (last L @ concat cs))\<rparr>"
    using Cons.IH [of st2] nl b2 by simp
  show ?case
    unfolding step ih whole
    by (simp add: st2_def foldl_process_line_buffer butlast_append split_newline_nonempty)
qed

section \<open>The arrival counter\<close>

lemma try_line_counted:
  "counted st \<Longrightarrow> counted (fst (try_line P cb st l))"
  by (simp add: counted_def try_line_def Let_def split: option.splits)

lemma process_line_counted:
  "counted st \<Longrightarrow> counted (process_line P cb st l)"
  using try_line_counted [of st P cb "trim l"]
  by (auto simp: process_line_def Let_def split: prod.splits option.splits)

lemma foldl_process_line_counted:
  "counted st \<Longrightarrow> counted (foldl (process_line P cb) st ls)"
  by (induction ls arbitrary: st) (simp_all add: process_line_counted)

lemma read_loop_counted:
  "counted st \<Longrightarrow> counted (read_loop P cb st cs)"
proof (induction cs arbitrary: st)
  case Nil
  then show ?case by simp
next
  case (Cons c cs)
  have "counted (st\<lparr>buffer := b\<rparr>)" for b
    using Cons.prems by (simp add: counted_def)
  then show ?case
    unfolding read_loop.simps Let_def
    by (intro Cons.IH foldl_process_line_counted)
qed

lemma process_remaining_delivered:
  "delivered (process_remaining P st) = delivered st"
  by (simp add: process_remaining_def split: option.splits)

lemma counted_length:
  assumes "counted st"
  shows "map snd (delivered st) = [1..<Suc (length (delivered st))]"
proof -
  have "length (map snd (delivered st)) = length (map Suc [0..<actionCount st])"
    using assms unfolding counted_def by (rule arg_cong)
  then have "length (delivered st) = actionCount st"
    by simp
  then have "map snd (delivered st) = map Suc [0..<length (delivered st)]"
    using assms unfolding counted_def by simp
  then show ?thesis
    by (simp only: map_Suc_upt One_nat_def)
qed

lemma invocations_counted:
  "map snd (invocations (sendStreamingMessage P cb m f))
     = [1..<Suc (length (invocations (sendStreamingMessage P cb m f)))]"
proof -
  have c: "map snd (delivered (read_loop P cb initial cs))
      = [1..<Suc (length (delivered (read_loop P cb initial cs)))]" for cs
    by (rule counted_length, rule read_loop_counted) (simp add: initial_def counted_def)
  show ?thesis
  proof (cases "\<exists>r cs e. trim m \<noteq> [] \<and> f = Resolves r \<and> ok r \<and> body r = Some (cs, e)")
    case True
    then obtain r cs e where "trim m \<noteq> []" "f = Resolves r" "ok r" "body r = Some (cs, e)"
      by blast
    then show ?thesis
      using c [of cs]
      by (cases e) (simp_all add: sendStreamingMessage_def Let_def process_remaining_delivered)
  next
    case False
    then have "invocations (sendStreamingMessage P cb m f) = []"
      by (auto simp: sendStreamingMessage_def Let_def split: fetched.splits option.splits)
    then show ?thesis by simp
  qed
qed

section \<open>Chunk boundaries\<close>

lemma split_newline_line:
  "newline \<notin> set line \<Longrightarrow> split_newline (line @ newline # post) = line # split_newline post"
  using split_from_no_newline [of line "[]" "newline # post"] by (simp add: split_newline_def)

lemma split_from_ends_newline: "last (split_from cur (x @ [newline])) = []"
  using split_from_append [of cur x "[newline]"] by simp

lemma split_newline_after_newline:
  assumes "pre = [] \<or> last pre = newline"
  shows "split_newline (pre @ s) = butlast (split_newline pre) @ split_newline s"
proof (cases "pre = []")
  case True
  then show ?thesis by (simp add: split_newline_def)
next
  case False
  with assms have "pre = butlast pre @ [newline]"
    by (metis append_butlast_last_id)
  then have "last (split_from [] pre) = []"
    by (metis split_from_ends_newline)
  then show ?thesis
    using split_from_append [of "[]" pre s] by (simp add: split_newline_def)
qed

lemma read_loop_initial:
  "read_loop P cb initial cs =
     (foldl (process_line P cb) initial (butlast (split_newline (concat cs))))
       \<lparr>buffer := last (split_newline (concat cs))\<rparr>"
  using read_loop_concat [of initial P cb cs] by (simp add: initial_def)

lemma read_loop_skipped_line:
  assumes skip: "\<And>st. process_line P cb st line = st"
    and line: "newline \<notin> set line"
    and pre: "pre = [] \<or> last pre = newline"
    and cs: "concat chunks = pre @ line @ [newline] @ post"
    and cs': "concat chunks' = pre @ post"
  shows "read_loop P cb initial chunks = read_loop P cb initial chunks'"
proof -
  have a: "split_newline (concat chunks)
      = butlast (split_newline pre) @ line # split_newline post"
    unfolding cs using split_newline_after_newline [OF pre] split_newline_line [OF line]
    by simp
  have b: "split_newline (concat chunks') = butlast (split_newline pre) @ split_newline post"
    unfolding cs' using split_newline_after_newline [OF pre] by simp
  show ?thesis
    unfolding read_loop_initial a b
    by (simp add: butlast_append split_newline_nonempty skip)
qed

lemma sendStreamingMessage_read_loop:
  "read_loop P cb initial chunks = read_loop P cb initial chunks' \<Longrightarrow>
   sendStreamingMessage P cb m (Resolves (r\<lparr>body := Some (chunks, e)\<rparr>))
     = sendStreamingMessage P cb m (Resolves (r\<lparr>body := Some (chunks', e)\<rparr>))"
  by (simp add: sendStreamingMessage_def)

text \<open>
  C2. Whatever the chunking, the loop processes the lines of the payload (the pieces of
  the concatenated chunks before its last line feed) one by one in their order and leaves
  the piece after the last line feed in the buffer. So two ways of cutting one payload into
  chunks leave the loop with the same locals (the same deliveries with the same counts in
  the same order, the same final response, the same residual) and give the call the same
  outcome.
\<close>

theorem chunk_boundary_independence:
  assumes "concat chunks = concat chunks'"
  shows "read_loop P cb initial chunks =
       (foldl (process_line P cb) initial (butlast (split_newline (concat chunks'))))
         \<lparr>buffer := last (split_newline (concat chunks'))\<rparr> \<and>
     read_loop P cb initial chunks = read_loop P cb initial chunks' \<and>
     sendStreamingMessage P cb m (Resolves (r\<lparr>body := Some (chunks, e)\<rparr>))
       = sendStreamingMessage P cb m (Resolves (r\<lparr>body := Some (chunks', e)\<rparr>))"
proof -
  have same: "read_loop P cb initial chunks = read_loop P cb initial chunks'"
    unfolding read_loop_initial assms ..
  moreover have "read_loop P cb initial chunks =
       (foldl (process_line P cb) initial (butlast (split_newline (concat chunks'))))
         \<lparr>buffer := last (split_newline (concat chunks'))\<rparr>"
    unfolding read_loop_initial assms ..
  ultimately show ?thesis
    by (intro conjI sendStreamingMessage_read_loop)
qed

section \<open>Evaluating the samples\<close>

lemmas sample_defs = sample_parse_def action_line_def final_line_def bare_action_line_def
  empty_final_line_def error_line_def ping_line_def action_value_def returning_def
  earlier_action_line_def earlier_action_value_def unnumbered_action_line_def
  unnumbered_action_value_def second_final_line_def

lemmas run_defs = sendStreamingMessage_def streaming_def initial_def split_newline_def newline_def
      process_line_def try_line_def process_remaining_def trim_def is_space_def Let_def

text \<open>One character per chunk against the whole payload in one chunk.\<close>

theorem chunk_boundary_independence_witness:
  "read_loop sample_parse returning initial
       (map (\<lambda>c. [c]) (action_line @ [newline] @ final_line @ [newline]))
     = read_loop sample_parse returning initial
         [action_line @ [newline] @ final_line @ [newline]] \<and>
   sendStreamingMessage sample_parse returning ''hi''
       (streaming (map (\<lambda>c. [c]) (action_line @ [newline] @ final_line @ [newline])))
     = sendStreamingMessage sample_parse returning ''hi''
         (streaming [action_line @ [newline] @ final_line @ [newline]]) \<and>
   sendStreamingMessage sample_parse returning ''hi''
       (streaming [action_line @ [newline] @ final_line @ [newline]])
     = \<lparr>invocations = [(action_value, 1)], result = Inr (JStr ''Done'')\<rparr>"
proof -
  have h: "concat (map (\<lambda>c. [c]) (action_line @ [newline] @ final_line @ [newline]))
      = concat [action_line @ [newline] @ final_line @ [newline]]"
    by simp
  have v: "sendStreamingMessage sample_parse returning ''hi''
       (streaming [action_line @ [newline] @ final_line @ [newline]])
     = \<lparr>invocations = [(action_value, 1)], result = Inr (JStr ''Done'')\<rparr>"
    by (simp add: run_defs sample_defs)
  note inst = chunk_boundary_independence [OF h, where P = sample_parse and cb = returning
      and m = "''hi''" and e = None
      and r = "\<lparr>ok = True, status = 200, statusText = ''OK'', body = None\<rparr>"]
  have a: "read_loop sample_parse returning initial
       (map (\<lambda>c. [c]) (action_line @ [newline] @ final_line @ [newline]))
     = read_loop sample_parse returning initial
         [action_line @ [newline] @ final_line @ [newline]]"
    by (rule inst [THEN conjunct2, THEN conjunct1])
  have b: "sendStreamingMessage sample_parse returning ''hi''
       (streaming (map (\<lambda>c. [c]) (action_line @ [newline] @ final_line @ [newline])))
     = sendStreamingMessage sample_parse returning ''hi''
         (streaming [action_line @ [newline] @ final_line @ [newline]])"
    using inst [THEN conjunct2, THEN conjunct2] by (simp add: streaming_def)
  show ?thesis
    by (intro conjI a b v)
qed

section \<open>Deliveries\<close>

lemma process_line_delivered:
  "delivered (process_line P cb st l)
     = delivered st @ (case action_of P l of None \<Rightarrow> [] | Some a \<Rightarrow> [(a, Suc (actionCount st))])"
  "actionCount (process_line P cb st l)
     = actionCount st + (case action_of P l of None \<Rightarrow> 0 | Some a \<Rightarrow> 1)"
  by (auto simp: process_line_def try_line_def action_of_def Let_def
      split: option.splits callback_result.splits)

lemma foldl_process_line_delivered:
  "delivered (foldl (process_line P cb) st ls)
     = delivered st
         @ map (\<lambda>(n, a). (a, n)) (enumerate (Suc (actionCount st)) (List.map_filter (action_of P) ls))
   \<and> actionCount (foldl (process_line P cb) st ls)
     = actionCount st + length (List.map_filter (action_of P) ls)"
proof (induction ls arbitrary: st)
  case Nil
  show ?case by (simp add: List.map_filter_simps)
next
  case (Cons l ls)
  show ?case
    by (cases "action_of P l")
      (simp_all add: Cons.IH [of "process_line P cb st l"] process_line_delivered
        List.map_filter_simps)
qed

lemma enumerate_swapped:
  "map (\<lambda>(n, a). (a, n)) (enumerate (Suc 0) xs) = zip xs [1..<Suc (length xs)]"
proof -
  have "map (\<lambda>(n, a). (a, n)) (zip [Suc 0..<Suc 0 + length xs] xs)
      = zip xs [Suc 0..<Suc 0 + length xs]"
    by (rule zip_commute [symmetric])
  then show ?thesis
    by (simp only: enumerate_eq_zip One_nat_def plus_nat.simps)
qed

lemma read_loop_delivered:
  "delivered (read_loop P cb initial chunks)
     = zip (List.map_filter (action_of P) (butlast (split_newline (concat chunks))))
         [1..<Suc (length (List.map_filter (action_of P)
                             (butlast (split_newline (concat chunks)))))]"
proof -
  have "delivered (read_loop P cb initial chunks)
      = map (\<lambda>(n, a). (a, n))
          (enumerate (Suc 0)
             (List.map_filter (action_of P) (butlast (split_newline (concat chunks)))))"
    unfolding read_loop_initial
    using foldl_process_line_delivered
      [of P cb initial "butlast (split_newline (concat chunks))"]
    by (simp add: initial_def)
  then show ?thesis
    by (simp only: enumerate_swapped)
qed

text \<open>
  C3. The callback is invoked once for each line of the stream that carries a truthy
  action, in the order of the lines, with that action and the counts \<open>1, 2, 3, \<dots>\<close>:
  the count is the position among the deliveries, without gap or repetition. The actions
  are arbitrary values, so nothing depends on any \<^verbatim>\<open>sequence_index\<close> in them. The
  counts are \<open>1, \<dots>, n\<close> however the call ends, also when it throws.
\<close>

theorem arrival_counts:
  "map snd (invocations (sendStreamingMessage P cb m f))
     = [1..<Suc (length (invocations (sendStreamingMessage P cb m f)))] \<and>
   (trim m \<noteq> [] \<and> ok r \<and> body r = Some (chunks, e) \<longrightarrow>
      invocations (sendStreamingMessage P cb m (Resolves r))
        = zip (List.map_filter (action_of P) (butlast (split_newline (concat chunks))))
            [1..<Suc (length (List.map_filter (action_of P)
                                (butlast (split_newline (concat chunks)))))])"
proof (intro conjI impI)
  show "map snd (invocations (sendStreamingMessage P cb m f))
     = [1..<Suc (length (invocations (sendStreamingMessage P cb m f)))]"
    by (rule invocations_counted)
next
  assume a: "trim m \<noteq> [] \<and> ok r \<and> body r = Some (chunks, e)"
  then have "invocations (sendStreamingMessage P cb m (Resolves r))
      = delivered (read_loop P cb initial chunks)"
    by (cases e) (simp_all add: sendStreamingMessage_def Let_def process_remaining_delivered)
  then show "invocations (sendStreamingMessage P cb m (Resolves r))
        = zip (List.map_filter (action_of P) (butlast (split_newline (concat chunks))))
            [1..<Suc (length (List.map_filter (action_of P)
                                (butlast (split_newline (concat chunks)))))]"
    by (simp only: read_loop_delivered)
qed

text \<open>
  Four actions whose \<^verbatim>\<open>sequence_index\<close> is 7, 7 again, 3 and missing, with a record
  without an action among them: they are delivered with the counts 1, 2, 3, 4.
\<close>

theorem arrival_counts_witness:
  "invocations (sendStreamingMessage sample_parse returning ''hi''
       (streaming [action_line @ [newline] @ action_line @ [newline] @ bare_action_line
                     @ [newline] @ earlier_action_line @ [newline] @ unnumbered_action_line
                     @ [newline]]))
     = zip (List.map_filter (action_of sample_parse)
              (butlast (split_newline (concat
                 [action_line @ [newline] @ action_line @ [newline] @ bare_action_line
                    @ [newline] @ earlier_action_line @ [newline] @ unnumbered_action_line
                    @ [newline]]))))
         [1..<Suc (length (List.map_filter (action_of sample_parse)
              (butlast (split_newline (concat
                 [action_line @ [newline] @ action_line @ [newline] @ bare_action_line
                    @ [newline] @ earlier_action_line @ [newline] @ unnumbered_action_line
                    @ [newline]])))))] \<and>
   List.map_filter (action_of sample_parse)
       (butlast (split_newline (concat
          [action_line @ [newline] @ action_line @ [newline] @ bare_action_line
             @ [newline] @ earlier_action_line @ [newline] @ unnumbered_action_line
             @ [newline]])))
     = [action_value, action_value, earlier_action_value, unnumbered_action_value] \<and>
   sendStreamingMessage sample_parse returning ''hi''
       (streaming [action_line @ [newline] @ action_line @ [newline] @ bare_action_line
                     @ [newline] @ earlier_action_line @ [newline] @ unnumbered_action_line
                     @ [newline]])
     = \<lparr>invocations = [(action_value, 1), (action_value, 2), (earlier_action_value, 3),
                        (unnumbered_action_value, 4)],
        result = Inr (JStr [])\<rparr>"
proof -
  let ?cs = "[action_line @ [newline] @ action_line @ [newline] @ bare_action_line
                @ [newline] @ earlier_action_line @ [newline] @ unnumbered_action_line
                @ [newline]]"
  let ?r = "\<lparr>ok = True, status = 200, statusText = ''OK'', body = Some (?cs, None)\<rparr>"
  have h: "trim ''hi'' \<noteq> [] \<and> ok ?r \<and> body ?r = Some (?cs, None)"
    by (simp add: trim_def is_space_def)
  have a: "invocations (sendStreamingMessage sample_parse returning ''hi'' (Resolves ?r))
      = zip (List.map_filter (action_of sample_parse) (butlast (split_newline (concat ?cs))))
          [1..<Suc (length (List.map_filter (action_of sample_parse)
                              (butlast (split_newline (concat ?cs)))))]"
    using arrival_counts [where P = sample_parse and cb = returning and m = "''hi''"
        and r = ?r and chunks = ?cs and e = None, THEN conjunct2] h
    by blast
  have b: "List.map_filter (action_of sample_parse) (butlast (split_newline (concat ?cs)))
      = [action_value, action_value, earlier_action_value, unnumbered_action_value]"
    by (simp add: List.map_filter_simps action_of_def split_newline_def newline_def trim_def
        is_space_def sample_defs)
  have c: "sendStreamingMessage sample_parse returning ''hi'' (streaming ?cs)
      = \<lparr>invocations = [(action_value, 1), (action_value, 2), (earlier_action_value, 3),
                         (unnumbered_action_value, 4)],
         result = Inr (JStr [])\<rparr>"
    by (simp add: run_defs sample_defs)
  show ?thesis
    using a b c unfolding streaming_def by (intro conjI)
qed

section \<open>Lines that are skipped\<close>

lemma process_line_malformed:
  assumes "P (trim line) = None \<or>
     (\<exists>d. P (trim line) = Some d \<and>
        field d ''type'' \<notin> {Some (JStr ''action''), Some (JStr ''final_response''),
                                Some (JStr ''error'')})"
  shows "process_line P cb st line = st"
  using assms by (auto simp: process_line_def try_line_def Let_def)

lemma process_remaining_malformed:
  assumes "P (trim line) = None \<or>
     (\<exists>d. P (trim line) = Some d \<and>
        field d ''type'' \<notin> {Some (JStr ''action''), Some (JStr ''final_response''),
                                Some (JStr ''error'')})"
  shows "process_remaining P (st\<lparr>buffer := line\<rparr>) = st\<lparr>buffer := line\<rparr>"
  using assms by (auto simp: process_remaining_def)

text \<open>
  C5. A line that \<^verbatim>\<open>JSON.parse\<close> rejects, or whose value has no \<^verbatim>\<open>type\<close> or one
  that is none of \<^verbatim>\<open>action\<close>, \<^verbatim>\<open>final_response\<close>, \<^verbatim>\<open>error\<close>, changes
  nothing: no delivery, no count, no final response; as the residual after the last line
  feed it changes nothing either. The call goes on as if the line were not in the stream:
  its outcome is that of the stream without the line.
\<close>

theorem malformed_line_skipped:
  assumes bad: "P (trim line) = None \<or>
     (\<exists>d. P (trim line) = Some d \<and>
        field d ''type'' \<notin> {Some (JStr ''action''), Some (JStr ''final_response''),
                                Some (JStr ''error'')})"
    and line: "newline \<notin> set line"
    and pre: "pre = [] \<or> last pre = newline"
    and cs: "concat chunks = pre @ line @ [newline] @ post"
    and cs': "concat chunks' = pre @ post"
  shows "process_line P cb st line = st \<and>
     process_remaining P (st\<lparr>buffer := line\<rparr>) = st\<lparr>buffer := line\<rparr> \<and>
     sendStreamingMessage P cb m (Resolves (r\<lparr>body := Some (chunks, e)\<rparr>))
       = sendStreamingMessage P cb m (Resolves (r\<lparr>body := Some (chunks', e)\<rparr>))"
proof -
  have skip: "process_line P cb s line = s" for s
    using bad by (rule process_line_malformed)
  have "read_loop P cb initial chunks = read_loop P cb initial chunks'"
    by (rule read_loop_skipped_line [OF skip line pre cs cs'])
  moreover have "process_remaining P (st\<lparr>buffer := line\<rparr>) = st\<lparr>buffer := line\<rparr>"
    using bad by (rule process_remaining_malformed)
  ultimately show ?thesis
    by (intro conjI skip sendStreamingMessage_read_loop)
qed

text \<open>A line that is no JSON text, and a line of an unknown type, between two records.\<close>

theorem malformed_line_skipped_witness:
  "(process_line sample_parse returning initial ''not json'' = initial \<and>
    process_remaining sample_parse (initial\<lparr>buffer := ''not json''\<rparr>)
      = initial\<lparr>buffer := ''not json''\<rparr> \<and>
    sendStreamingMessage sample_parse returning ''hi''
        (streaming [action_line @ [newline] @ ''not json'' @ [newline] @ final_line @ [newline]])
      = sendStreamingMessage sample_parse returning ''hi''
          (streaming [action_line @ [newline] @ final_line @ [newline]])) \<and>
   (process_line sample_parse returning initial ping_line = initial \<and>
    process_remaining sample_parse (initial\<lparr>buffer := ping_line\<rparr>)
      = initial\<lparr>buffer := ping_line\<rparr> \<and>
    sendStreamingMessage sample_parse returning ''hi''
        (streaming [action_line @ [newline] @ ping_line @ [newline] @ final_line @ [newline]])
      = sendStreamingMessage sample_parse returning ''hi''
          (streaming [action_line @ [newline] @ final_line @ [newline]]))"
proof -
  let ?r = "\<lparr>ok = True, status = 200, statusText = ''OK'', body = None\<rparr>"
  have a: "sample_parse (trim ''not json'') = None"
    by (simp add: sample_defs trim_def is_space_def)
  have b: "\<exists>d. sample_parse (trim ping_line) = Some d \<and>
        field d ''type'' \<notin> {Some (JStr ''action''), Some (JStr ''final_response''),
                                Some (JStr ''error'')}"
    by (simp add: sample_defs trim_def is_space_def)
  have n1: "newline \<notin> set ''not json''" and n2: "newline \<notin> set ping_line"
    by (simp_all add: newline_def ping_line_def)
  have p: "action_line @ [newline] = [] \<or> last (action_line @ [newline]) = newline"
    by simp
  show ?thesis
    using malformed_line_skipped [where P = sample_parse and line = "''not json''"
        and pre = "action_line @ [newline]" and post = "final_line @ [newline]"
        and chunks = "[action_line @ [newline] @ ''not json'' @ [newline] @ final_line @ [newline]]"
        and chunks' = "[action_line @ [newline] @ final_line @ [newline]]"
        and cb = returning and st = initial and m = "''hi''" and r = ?r and e = None,
        OF disjI1 [OF a] n1 p]
      malformed_line_skipped [where P = sample_parse and line = ping_line
        and pre = "action_line @ [newline]" and post = "final_line @ [newline]"
        and chunks = "[action_line @ [newline] @ ping_line @ [newline] @ final_line @ [newline]]"
        and chunks' = "[action_line @ [newline] @ final_line @ [newline]]"
        and cb = returning and st = initial and m = "''hi''" and r = ?r and e = None,
        OF disjI2 [OF b] n2 p]
    by (simp add: streaming_def)
qed

lemma process_line_no_action:
  assumes "P (trim line) = Some d" and "field d ''type'' = Some (JStr ''action'')"
    and "\<not> truthy (field d ''action'')"
  shows "process_line P cb st line = st"
proof -
  have "d \<noteq> JNull" using assms(2) by auto
  then show ?thesis
    using assms by (auto simp: process_line_def try_line_def Let_def split: option.splits)
qed

text \<open>
  C10. A line of type \<^verbatim>\<open>action\<close> whose \<^verbatim>\<open>action\<close> is absent or falsy changes
  nothing: the callback is not invoked and the counter stays. The call goes on as if the
  line were not in the stream, so every later action is delivered with the count it would have had
  without the line.
\<close>

theorem action_without_payload_skipped:
  assumes d: "P (trim line) = Some d"
    and ty: "field d ''type'' = Some (JStr ''action'')"
    and falsy: "\<not> truthy (field d ''action'')"
    and line: "newline \<notin> set line"
    and pre: "pre = [] \<or> last pre = newline"
    and cs: "concat chunks = pre @ line @ [newline] @ post"
    and cs': "concat chunks' = pre @ post"
  shows "process_line P cb st line = st \<and>
     sendStreamingMessage P cb m (Resolves (r\<lparr>body := Some (chunks, e)\<rparr>))
       = sendStreamingMessage P cb m (Resolves (r\<lparr>body := Some (chunks', e)\<rparr>))"
proof -
  have skip: "process_line P cb s line = s" for s
    using d ty falsy by (rule process_line_no_action)
  have "read_loop P cb initial chunks = read_loop P cb initial chunks'"
    by (rule read_loop_skipped_line [OF skip line pre cs cs'])
  then show ?thesis
    by (intro conjI skip sendStreamingMessage_read_loop)
qed

text \<open>The second action is delivered with the count 2, with or without the empty record before it.\<close>

theorem action_without_payload_skipped_witness:
  "process_line sample_parse returning initial bare_action_line = initial \<and>
   sendStreamingMessage sample_parse returning ''hi''
       (streaming [action_line @ [newline] @ bare_action_line @ [newline] @ action_line @ [newline]])
     = sendStreamingMessage sample_parse returning ''hi''
         (streaming [action_line @ [newline] @ action_line @ [newline]]) \<and>
   sendStreamingMessage sample_parse returning ''hi''
       (streaming [action_line @ [newline] @ action_line @ [newline]])
     = \<lparr>invocations = [(action_value, 1), (action_value, 2)], result = Inr (JStr [])\<rparr>"
proof -
  have d: "sample_parse (trim bare_action_line) = Some (JObj [(''type'', JStr ''action'')])"
    by (simp add: sample_defs trim_def is_space_def)
  have ty: "field (JObj [(''type'', JStr ''action'')]) ''type'' = Some (JStr ''action'')"
    by simp
  have falsy: "\<not> truthy (field (JObj [(''type'', JStr ''action'')]) ''action'')"
    by simp
  have n: "newline \<notin> set bare_action_line"
    by (simp add: newline_def bare_action_line_def)
  have p: "action_line @ [newline] = [] \<or> last (action_line @ [newline]) = newline"
    by simp
  have v: "sendStreamingMessage sample_parse returning ''hi''
       (streaming [action_line @ [newline] @ action_line @ [newline]])
     = \<lparr>invocations = [(action_value, 1), (action_value, 2)], result = Inr (JStr [])\<rparr>"
    by (simp add: run_defs sample_defs)
  show ?thesis
    using action_without_payload_skipped [where P = sample_parse and line = bare_action_line
        and pre = "action_line @ [newline]" and post = "action_line @ [newline]"
        and chunks = "[action_line @ [newline] @ bare_action_line @ [newline] @ action_line @ [newline]]"
        and chunks' = "[action_line @ [newline] @ action_line @ [newline]]"
        and cb = returning and st = initial and m = "''hi''" and e = None
        and r = "\<lparr>ok = True, status = 200, statusText = ''OK'', body = None\<rparr>",
        OF d ty falsy n p] v
    by (simp add: streaming_def)
qed

section \<open>Error records\<close>

text \<open>
  C1. The \<^verbatim>\<open>throw new Error(data.message || 'Agent error')\<close> of an \<^verbatim>\<open>error\<close>
  record stands inside the \<^verbatim>\<open>try\<close> whose \<^verbatim>\<open>catch\<close> only warns, so the error
  never leaves the loop: the line changes nothing, the call returns normally, and the
  records after it are still processed.
\<close>

theorem error_record_swallowed:
  "try_line sample_parse returning initial error_line = (initial, Some (AgentError (JStr ''boom''))) \<and>
   process_line sample_parse returning initial error_line = initial \<and>
   sendStreamingMessage sample_parse returning ''hi'' (streaming [error_line @ [newline]])
     = \<lparr>invocations = [], result = Inr (JStr [])\<rparr> \<and>
   sendStreamingMessage sample_parse returning ''hi''
       (streaming [error_line @ [newline] @ action_line @ [newline] @ final_line @ [newline]])
     = \<lparr>invocations = [(action_value, 1)], result = Inr (JStr ''Done'')\<rparr>"
  by (simp add: run_defs sample_defs)

section \<open>The residual buffer\<close>

text \<open>
  C7. A last line without a line feed is parsed after the loop, but only a
  \<^verbatim>\<open>final_response\<close> is acted on: the same action record is delivered when a line
  feed follows it and dropped when none does.
\<close>

theorem residual_action_dropped:
  "sendStreamingMessage sample_parse returning ''hi'' (streaming [action_line])
     = \<lparr>invocations = [], result = Inr (JStr [])\<rparr> \<and>
   sendStreamingMessage sample_parse returning ''hi'' (streaming [action_line @ [newline]])
     = \<lparr>invocations = [(action_value, 1)], result = Inr (JStr [])\<rparr> \<and>
   sendStreamingMessage sample_parse returning ''hi'' (streaming [final_line])
     = \<lparr>invocations = [], result = Inr (JStr ''Done'')\<rparr>"
  by (simp add: run_defs sample_defs)

section \<open>The final response\<close>

lemma process_line_final:
  "finalResponse (process_line P cb st l)
     = (case final_response_of P l of None \<Rightarrow> finalResponse st | Some v \<Rightarrow> v)"
  by (auto simp: process_line_def try_line_def final_response_of_def Let_def
      split: option.splits callback_result.splits)

lemma foldl_no_final:
  "\<forall>l \<in> set ls. final_response_of P l = None \<Longrightarrow>
   finalResponse (foldl (process_line P cb) st ls) = finalResponse st"
  by (induction ls arbitrary: st) (simp_all add: process_line_final)

lemma process_remaining_final:
  "finalResponse (process_remaining P st)
     = (case final_response_of P (buffer st) of None \<Rightarrow> finalResponse st | Some v \<Rightarrow> v)"
  by (auto simp: process_remaining_def final_response_of_def split: option.splits)

lemma final_after_pieces:
  assumes pieces: "split_newline (concat chunks) = before @ [line] @ rest"
    and fin: "final_response_of P line = Some v"
    and later: "\<forall>l \<in> set rest. final_response_of P l = None"
  shows "finalResponse (process_remaining P (read_loop P cb initial chunks)) = v"
proof (cases "rest = []")
  case True
  then have "read_loop P cb initial chunks
      = (foldl (process_line P cb) initial before)\<lparr>buffer := line\<rparr>"
    unfolding read_loop_initial pieces by simp
  then show ?thesis
    by (simp add: process_remaining_final fin)
next
  case False
  have bl: "\<forall>l \<in> set (butlast rest). final_response_of P l = None"
    using later by (auto dest: in_set_butlastD)
  have lb: "final_response_of P (last rest) = None"
    using later False by simp
  have "read_loop P cb initial chunks
      = (foldl (process_line P cb) initial (before @ line # butlast rest))
          \<lparr>buffer := last rest\<rparr>"
    unfolding read_loop_initial pieces using False by (simp add: butlast_append)
  then show ?thesis
    by (simp add: process_remaining_final lb foldl_no_final [OF bl] process_line_final fin)
qed

lemma no_final_in_pieces:
  assumes "\<forall>l \<in> set (split_newline (concat chunks)). final_response_of P l = None"
  shows "finalResponse (process_remaining P (read_loop P cb initial chunks)) = JStr []"
proof -
  have ne: "split_newline (concat chunks) \<noteq> []"
    by (rule split_newline_nonempty)
  have bl: "\<forall>l \<in> set (butlast (split_newline (concat chunks))). final_response_of P l = None"
    using assms by (auto dest: in_set_butlastD)
  have lb: "final_response_of P (last (split_newline (concat chunks))) = None"
    using assms ne by simp
  show ?thesis
    unfolding read_loop_initial
    by (simp add: process_remaining_final lb foldl_no_final [OF bl] initial_def)
qed

text \<open>
  C6, as amended. A \<^verbatim>\<open>final_response\<close> record with a truthy response overwrites the
  stored value, and the call returns the response of the last such record among the pieces
  of the stream, whatever came before it; the record may be a line of the loop or the
  residual after the last line feed. A piece that stores no response, such as a record
  whose response is absent or falsy (the empty string for one, passed over by the guard
  \<^verbatim>\<open>if (data.response)\<close>), leaves the stored value as it was, in the loop and as the
  residual; when no piece stores one, the call returns the empty string.
\<close>

theorem last_truthy_final_response_wins:
  assumes m: "trim m \<noteq> []" and r: "ok r" "body r = Some (chunks, None)"
    and pieces: "split_newline (concat chunks) = before @ [line] @ rest"
    and line: "trim line \<noteq> []"
    and d: "P (trim line) = Some d" "field d ''type'' = Some (JStr ''final_response'')"
      "field d ''response'' = Some v" "truthy (Some v)"
    and later: "\<forall>l \<in> set rest. final_response_of P l = None"
  shows "process_line P cb st line = st\<lparr>finalResponse := v\<rparr> \<and>
     finalResponse (process_remaining P (st\<lparr>buffer := line\<rparr>)) = v \<and>
     result (sendStreamingMessage P cb m (Resolves r)) = Inr v \<and>
     (final_response_of P l = None \<longrightarrow>
        finalResponse (process_line P cb st l) = finalResponse st \<and>
        finalResponse (process_remaining P (st\<lparr>buffer := l\<rparr>)) = finalResponse st) \<and>
     ((\<forall>l \<in> set (split_newline (concat chunks')). final_response_of P l = None) \<and>
      body r' = Some (chunks', None) \<and> ok r' \<longrightarrow>
        result (sendStreamingMessage P cb m (Resolves r')) = Inr (JStr []))"
proof -
  have "d \<noteq> JNull" using d(2) by auto
  then have fin: "final_response_of P line = Some v"
    using line d by (simp add: final_response_of_def)
  have one: "process_line P cb st line = st\<lparr>finalResponse := v\<rparr>"
    using line d \<open>d \<noteq> JNull\<close> by (simp add: process_line_def try_line_def)
  have res: "finalResponse (process_remaining P (st\<lparr>buffer := line\<rparr>)) = v"
    by (simp add: process_remaining_final fin)
  have "finalResponse (process_remaining P (read_loop P cb initial chunks)) = v"
    by (rule final_after_pieces [OF pieces fin later])
  then have two: "result (sendStreamingMessage P cb m (Resolves r)) = Inr v"
    using m r by (simp add: sendStreamingMessage_def)
  have three: "final_response_of P l = None \<longrightarrow>
        finalResponse (process_line P cb st l) = finalResponse st \<and>
        finalResponse (process_remaining P (st\<lparr>buffer := l\<rparr>)) = finalResponse st"
    by (simp add: process_line_final process_remaining_final)
  have four: "(\<forall>l \<in> set (split_newline (concat chunks')). final_response_of P l = None) \<and>
      body r' = Some (chunks', None) \<and> ok r' \<longrightarrow>
        result (sendStreamingMessage P cb m (Resolves r')) = Inr (JStr [])"
  proof
    assume a: "(\<forall>l \<in> set (split_newline (concat chunks')). final_response_of P l = None) \<and>
      body r' = Some (chunks', None) \<and> ok r'"
    then have "finalResponse (process_remaining P (read_loop P cb initial chunks')) = JStr []"
      using no_final_in_pieces [of chunks' P cb] by blast
    then show "result (sendStreamingMessage P cb m (Resolves r')) = Inr (JStr [])"
      using m a by (simp add: sendStreamingMessage_def)
  qed
  show ?thesis
    using one res two three four by blast
qed

text \<open>
  Two different responses, the second one the last truthy one: once as a line followed by
  a record with the empty string, once as the residual without a line feed. And a stream
  whose only record carries the empty string.
\<close>

theorem last_truthy_final_response_wins_witness:
  "(process_line sample_parse returning initial second_final_line
      = initial\<lparr>finalResponse := JStr ''Second''\<rparr> \<and>
    finalResponse (process_remaining sample_parse (initial\<lparr>buffer := second_final_line\<rparr>))
      = JStr ''Second'' \<and>
    result (sendStreamingMessage sample_parse returning ''hi''
        (streaming [final_line @ [newline] @ second_final_line @ [newline]
                      @ empty_final_line @ [newline]]))
      = Inr (JStr ''Second'') \<and>
    finalResponse (process_line sample_parse returning initial empty_final_line)
      = finalResponse initial \<and>
    finalResponse (process_remaining sample_parse (initial\<lparr>buffer := empty_final_line\<rparr>))
      = finalResponse initial \<and>
    result (sendStreamingMessage sample_parse returning ''hi''
        (streaming [action_line @ [newline] @ empty_final_line @ [newline]]))
      = Inr (JStr [])) \<and>
   result (sendStreamingMessage sample_parse returning ''hi''
       (streaming [final_line @ [newline] @ second_final_line]))
     = Inr (JStr ''Second'')"
proof -
  let ?c1 = "[final_line @ [newline] @ second_final_line @ [newline]
                @ empty_final_line @ [newline]]"
  let ?c2 = "[final_line @ [newline] @ second_final_line]"
  let ?c3 = "[action_line @ [newline] @ empty_final_line @ [newline]]"
  let ?d = "JObj [(''type'', JStr ''final_response''), (''response'', JStr ''Second'')]"
  have m: "trim ''hi'' \<noteq> []"
    by (simp add: trim_def is_space_def)
  have p1: "split_newline (concat ?c1) = [final_line] @ [second_final_line] @ [empty_final_line, []]"
    by (simp add: split_newline_def newline_def final_line_def second_final_line_def
        empty_final_line_def)
  have p2: "split_newline (concat ?c2) = [final_line] @ [second_final_line] @ []"
    by (simp add: split_newline_def newline_def final_line_def second_final_line_def)
  have line: "trim second_final_line \<noteq> []"
    by (simp add: second_final_line_def trim_def is_space_def)
  have d: "sample_parse (trim second_final_line) = Some ?d"
    by (simp add: sample_defs trim_def is_space_def)
  have ty: "field ?d ''type'' = Some (JStr ''final_response'')"
    and resp: "field ?d ''response'' = Some (JStr ''Second'')"
    and tr: "truthy (Some (JStr ''Second''))"
    by simp_all
  have later1: "\<forall>l \<in> set [empty_final_line, []]. final_response_of sample_parse l = None"
    by (simp add: final_response_of_def sample_defs trim_def is_space_def)
  have later2: "\<forall>l \<in> set []. final_response_of sample_parse l = None"
    by simp
  have none: "final_response_of sample_parse empty_final_line = None"
    by (simp add: final_response_of_def sample_defs trim_def is_space_def)
  have all3: "\<forall>l \<in> set (split_newline (concat ?c3)). final_response_of sample_parse l = None"
    by (simp add: final_response_of_def sample_defs trim_def is_space_def split_newline_def
        newline_def)
  have r1: "ok \<lparr>ok = True, status = 200, statusText = ''OK'', body = Some (?c1, None)\<rparr>"
    "body \<lparr>ok = True, status = 200, statusText = ''OK'', body = Some (?c1, None)\<rparr>
       = Some (?c1, None)"
    by simp_all
  have r2: "ok \<lparr>ok = True, status = 200, statusText = ''OK'', body = Some (?c2, None)\<rparr>"
    "body \<lparr>ok = True, status = 200, statusText = ''OK'', body = Some (?c2, None)\<rparr>
       = Some (?c2, None)"
    by simp_all
  note first = last_truthy_final_response_wins [where P = sample_parse and cb = returning
      and st = initial and m = "''hi''" and line = second_final_line and l = empty_final_line
      and chunks' = ?c3
      and r' = "\<lparr>ok = True, status = 200, statusText = ''OK'', body = Some (?c3, None)\<rparr>",
      OF m r1 p1 line d ty resp tr later1]
  note second = last_truthy_final_response_wins [where P = sample_parse and cb = returning
      and st = initial and m = "''hi''" and line = second_final_line and l = empty_final_line
      and chunks' = ?c3
      and r' = "\<lparr>ok = True, status = 200, statusText = ''OK'', body = Some (?c3, None)\<rparr>",
      OF m r2 p2 line d ty resp tr later2]
  show ?thesis
    using first second [THEN conjunct2, THEN conjunct2, THEN conjunct1] none all3
    unfolding streaming_def by simp
qed

text \<open>
  C6, as stated, fails: when the second of two \<^verbatim>\<open>final_response\<close> records carries
  the empty string, the call returns the response of the first.
\<close>

theorem second_final_response_counterexample:
  "sample_parse empty_final_line
     = Some (JObj [(''type'', JStr ''final_response''), (''response'', JStr [])]) \<and>
   result (sendStreamingMessage sample_parse returning ''hi''
       (streaming [final_line @ [newline] @ empty_final_line @ [newline]]))
     = Inr (JStr ''Done'') \<and>
   result (sendStreamingMessage sample_parse returning ''hi''
       (streaming [final_line @ [newline] @ empty_final_line @ [newline]]))
     \<noteq> Inr (JStr [])"
  by (simp add: run_defs sample_defs)

section \<open>Properties of the relay route\<close>

lemma relay_no_fetch: "Fetch u h t \<notin> set (relay S now f)"
  by (auto simp: relay_def catch_block_def split: fetched.splits option.splits)

lemma relay_no_end: "End \<notin> set (relay S now f)"
  by (auto simp: relay_def catch_block_def split: fetched.splits option.splits)

lemma stream_to_cases:
  "(\<exists>msg. stream_to S now env b m f = reject 500 msg)
   \<or> (\<exists>u h t. stream_to S now env b m f
         = [WriteHead 200 stream_headers, Fetch u h t] @ relay S now f @ [End])"
  by (auto simp: stream_to_def upstream_fetch_def Let_def split: option.splits)

lemma handle_body_cases:
  "(\<exists>n msg. handle_body S now env b f = reject n msg \<and> (n = 400 \<or> n = 500))
   \<or> (\<exists>u h t. handle_body S now env b f
         = [WriteHead 200 stream_headers, Fetch u h t] @ relay S now f @ [End])"
proof (cases "\<exists>m. message b = Some (JStr m) \<and> trim m \<noteq> []")
  case True
  then obtain m where m: "message b = Some (JStr m)" "trim m \<noteq> []" by blast
  then have "m \<noteq> []" by (auto simp: trim_def)
  with m have "handle_body S now env b f = stream_to S now env b m f"
    by (simp add: handle_body_def)
  then show ?thesis
    using stream_to_cases [of S now env b m f] by auto
next
  case False
  then have "handle_body S now env b f
      = reject 400 ''Message is required and must be a non-empty string''"
    by (auto simp: handle_body_def trim_def split: option.splits json.splits)
  then show ?thesis by auto
qed

lemma handler_cases:
  "(\<exists>n msg. handler S now env req f = reject n msg \<and> 400 \<le> n \<and> n < 600)
   \<or> (\<exists>u h t. handler S now env req f
         = [WriteHead 200 stream_headers, Fetch u h t] @ relay S now f @ [End])
   \<or> (req_method req = Some ''POST'' \<and> req_body req = None
        \<and> handler S now env req f = [ThrowsTypeError])"
proof (cases "req_method req = Some ''POST''")
  case False
  then have "handler S now env req f = reject 405 ''Method not allowed''"
    by (simp add: handler_def)
  then show ?thesis by auto
next
  case True
  show ?thesis
  proof (cases "req_body req")
    case None
    with True have "handler S now env req f = [ThrowsTypeError]"
      by (simp add: handler_def)
    with True None show ?thesis by blast
  next
    case (Some b)
    with True have "handler S now env req f = handle_body S now env b f"
      by (simp add: handler_def)
    then show ?thesis
      using handle_body_cases [of S now env b f] by auto
  qed
qed

text \<open>
  C4. In a run that makes the upstream request, when \<^verbatim>\<open>fetch\<close> throws, or the
  response is not \<^verbatim>\<open>ok\<close>, or it has no body to read, the relay writes the headers,
  then exactly one line, the record of type \<^verbatim>\<open>error\<close> built in the \<^verbatim>\<open>catch\<close>
  block, and ends the response. And every run that answers ends the response: it ends
  with the one \<^verbatim>\<open>res.end()\<close>, or it consists of one \<^verbatim>\<open>res.status(n).json(v)\<close>;
  a run that has written the headers of the stream always ends with \<^verbatim>\<open>res.end()\<close>. The
  one run that does neither is the \<^verbatim>\<open>POST\<close> whose body cannot be destructured, which
  throws before anything is written and before any upstream request.
\<close>

theorem upstream_failure_reported:
  "(Fetch u h t \<in> set (handler S now env req (Rejects e)) \<longrightarrow>
      handler S now env req (Rejects e)
        = [WriteHead 200 stream_headers, Fetch u h t,
           Write (S (errorData now e) @ [newline]), End]) \<and>
   (Fetch u h t \<in> set (handler S now env req (Resolves r)) \<and> \<not> ok r \<longrightarrow>
      handler S now env req (Resolves r)
        = [WriteHead 200 stream_headers, Fetch u h t,
           Write (S (errorData now
              (Error (''Agent proxy error: '' @ decimal (status r) @ '' '' @ statusText r)))
              @ [newline]), End]) \<and>
   (Fetch u h t \<in> set (handler S now env req (Resolves r)) \<and> ok r \<and> body r = None \<longrightarrow>
      handler S now env req (Resolves r)
        = [WriteHead 200 stream_headers, Fetch u h t,
           Write (S (errorData now (Error ''No response stream available from agent''))
              @ [newline]), End]) \<and>
   field (errorData now x) ''type'' = Some (JStr ''error'') \<and>
   ((\<exists>tr. handler S now env req f = tr @ [End] \<and> End \<notin> set tr)
      \<or> (\<exists>n v. handler S now env req f = [StatusJson n v])
      \<or> (req_method req = Some ''POST'' \<and> req_body req = None
           \<and> handler S now env req f = [ThrowsTypeError])) \<and>
   (WriteHead c hs \<in> set (handler S now env req f) \<longrightarrow>
      (\<exists>tr. handler S now env req f = tr @ [End] \<and> End \<notin> set tr)) \<and>
   (req_body req \<noteq> None \<longrightarrow>
      (\<exists>tr. handler S now env req f = tr @ [End] \<and> End \<notin> set tr)
        \<or> (\<exists>n v. handler S now env req f = [StatusJson n v]))"
proof -
  have run: "handler S now env req g
      = [WriteHead 200 stream_headers, Fetch u h t] @ relay S now g @ [End]"
    if "Fetch u h t \<in> set (handler S now env req g)" for g
  proof -
    consider (rejected) n msg where "handler S now env req g = reject n msg"
      | (streamed) u' h' t' where
        "handler S now env req g
           = [WriteHead 200 stream_headers, Fetch u' h' t'] @ relay S now g @ [End]"
      | (thrown) "handler S now env req g = [ThrowsTypeError]"
      using handler_cases [of S now env req g] by blast
    then show ?thesis
    proof cases
      case rejected
      with that show ?thesis by (simp add: reject_def)
    next
      case streamed
      with that relay_no_fetch [of u h t S now g] show ?thesis by auto
    next
      case thrown
      with that show ?thesis by simp
    qed
  qed
  consider (rejected) n msg where "handler S now env req f = reject n msg"
    | (streamed) u' h' t' where
      "handler S now env req f
         = [WriteHead 200 stream_headers, Fetch u' h' t'] @ relay S now f @ [End]"
    | (thrown) "req_method req = Some ''POST''" "req_body req = None"
      "handler S now env req f = [ThrowsTypeError]"
    using handler_cases [of S now env req f] by (elim disjE exE conjE) auto
  then have ended: "((\<exists>tr. handler S now env req f = tr @ [End] \<and> End \<notin> set tr)
      \<or> (\<exists>n v. handler S now env req f = [StatusJson n v])
      \<or> (req_method req = Some ''POST'' \<and> req_body req = None
           \<and> handler S now env req f = [ThrowsTypeError])) \<and>
   (WriteHead c hs \<in> set (handler S now env req f) \<longrightarrow>
      (\<exists>tr. handler S now env req f = tr @ [End] \<and> End \<notin> set tr)) \<and>
   (req_body req \<noteq> None \<longrightarrow>
      (\<exists>tr. handler S now env req f = tr @ [End] \<and> End \<notin> set tr)
        \<or> (\<exists>n v. handler S now env req f = [StatusJson n v]))"
  proof cases
    case rejected
    then show ?thesis by (simp add: reject_def)
  next
    case streamed
    then have "handler S now env req f
          = ([WriteHead 200 stream_headers, Fetch u' h' t'] @ relay S now f) @ [End]
        \<and> End \<notin> set ([WriteHead 200 stream_headers, Fetch u' h' t'] @ relay S now f)"
      using relay_no_end [of S now f] by simp
    then have "\<exists>tr. handler S now env req f = tr @ [End] \<and> End \<notin> set tr"
      by blast
    then show ?thesis by blast
  next
    case thrown
    then show ?thesis by simp
  qed
  have rej: "relay S now (Rejects e) = [Write (S (errorData now e) @ [newline])]"
    by (simp add: relay_def catch_block_def)
  have bad: "relay S now (Resolves r) = [Write (S (errorData now
               (Error (''Agent proxy error: '' @ decimal (status r) @ '' '' @ statusText r)))
               @ [newline])]" if "\<not> ok r"
    using that by (simp add: relay_def catch_block_def)
  have nobody: "relay S now (Resolves r) = [Write (S (errorData now
               (Error ''No response stream available from agent'')) @ [newline])]"
    if "ok r" "body r = None"
    using that by (simp add: relay_def catch_block_def)
  have ty: "field (errorData now x) ''type'' = Some (JStr ''error'')"
    by (simp add: errorData_def)
  have c1: "Fetch u h t \<in> set (handler S now env req (Rejects e)) \<longrightarrow>
      handler S now env req (Rejects e)
        = [WriteHead 200 stream_headers, Fetch u h t,
           Write (S (errorData now e) @ [newline]), End]"
  proof
    assume a: "Fetch u h t \<in> set (handler S now env req (Rejects e))"
    show "handler S now env req (Rejects e)
        = [WriteHead 200 stream_headers, Fetch u h t,
           Write (S (errorData now e) @ [newline]), End]"
      by (simp add: run [OF a] rej)
  qed
  have c2: "Fetch u h t \<in> set (handler S now env req (Resolves r)) \<and> \<not> ok r \<longrightarrow>
      handler S now env req (Resolves r)
        = [WriteHead 200 stream_headers, Fetch u h t,
           Write (S (errorData now
              (Error (''Agent proxy error: '' @ decimal (status r) @ '' '' @ statusText r)))
              @ [newline]), End]"
  proof
    assume a: "Fetch u h t \<in> set (handler S now env req (Resolves r)) \<and> \<not> ok r"
    then have a1: "Fetch u h t \<in> set (handler S now env req (Resolves r))" and a2: "\<not> ok r"
      by simp_all
    show "handler S now env req (Resolves r)
        = [WriteHead 200 stream_headers, Fetch u h t,
           Write (S (errorData now
              (Error (''Agent proxy error: '' @ decimal (status r) @ '' '' @ statusText r)))
              @ [newline]), End]"
      by (simp add: run [OF a1] bad [OF a2])
  qed
  have c3: "Fetch u h t \<in> set (handler S now env req (Resolves r)) \<and> ok r \<and> body r = None \<longrightarrow>
      handler S now env req (Resolves r)
        = [WriteHead 200 stream_headers, Fetch u h t,
           Write (S (errorData now (Error ''No response stream available from agent''))
              @ [newline]), End]"
  proof
    assume a: "Fetch u h t \<in> set (handler S now env req (Resolves r)) \<and> ok r \<and> body r = None"
    then have a1: "Fetch u h t \<in> set (handler S now env req (Resolves r))"
      and a2: "ok r" and a3: "body r = None"
      by simp_all
    show "handler S now env req (Resolves r)
        = [WriteHead 200 stream_headers, Fetch u h t,
           Write (S (errorData now (Error ''No response stream available from agent''))
              @ [newline]), End]"
      by (simp add: run [OF a1] nobody [OF a2 a3])
  qed
  show ?thesis
    using c1 c2 c3 ty ended by blast
qed

text \<open>A rejected \<^verbatim>\<open>fetch\<close>, a 502 and a response without a body.\<close>

theorem upstream_failure_reported_witness:
  "handler sample_stringify 1719676117000 no_environment sample_request
       (Rejects (Error ''fetch failed''))
     = [WriteHead 200 stream_headers,
        Fetch ''http://agent.test/stream''
          [(''Content-Type'', ''application/json''), (''Accept'', ''text/plain'')]
          (sample_stringify sample_upstream_body),
        Write (sample_stringify (errorData 1719676117000 (Error ''fetch failed'')) @ [newline]),
        End] \<and>
   handler sample_stringify 1719676117000 no_environment sample_request
       (Resolves \<lparr>ok = False, status = 502, statusText = ''Bad Gateway'', body = None\<rparr>)
     = [WriteHead 200 stream_headers,
        Fetch ''http://agent.test/stream''
          [(''Content-Type'', ''application/json''), (''Accept'', ''text/plain'')]
          (sample_stringify sample_upstream_body),
        Write (sample_stringify
                 (errorData 1719676117000 (Error ''Agent proxy error: 502 Bad Gateway''))
               @ [newline]),
        End] \<and>
   handler sample_stringify 1719676117000 no_environment sample_request
       (Resolves \<lparr>ok = True, status = 200, statusText = ''OK'', body = None\<rparr>)
     = [WriteHead 200 stream_headers,
        Fetch ''http://agent.test/stream''
          [(''Content-Type'', ''application/json''), (''Accept'', ''text/plain'')]
          (sample_stringify sample_upstream_body),
        Write (sample_stringify
                 (errorData 1719676117000 (Error ''No response stream available from agent''))
               @ [newline]),
        End] \<and>
   (\<exists>tr. handler sample_stringify 1719676117000 no_environment sample_request
            (Rejects (Error ''fetch failed''))
          = tr @ [End] \<and> End \<notin> set tr)"
proof -
  let ?u = "''http://agent.test/stream''"
  let ?h = "[(''Content-Type'', ''application/json''), (''Accept'', ''text/plain'')]"
  let ?t = "sample_stringify sample_upstream_body"
  have made: "Fetch ?u ?h ?t
      \<in> set (handler sample_stringify 1719676117000 no_environment sample_request g)" for g
    by (simp add: handler_def handle_body_def stream_to_def upstream_fetch_def
        sample_request_def no_environment_def sample_upstream_body_def trim_def is_space_def)
  have d: "decimal 502 = ''502''"
    by (simp add: decimal.simps)
  have opened: "WriteHead 200 stream_headers
      \<in> set (handler sample_stringify 1719676117000 no_environment sample_request g)" for g
    by (simp add: handler_def handle_body_def stream_to_def upstream_fetch_def
        sample_request_def no_environment_def trim_def is_space_def)
  note one = upstream_failure_reported [where u = ?u and h = ?h and t = ?t
      and S = sample_stringify and now = 1719676117000 and env = no_environment
      and req = sample_request and e = "Error ''fetch failed''"
      and f = "Rejects (Error ''fetch failed'')" and c = 200 and hs = stream_headers
      and r = "\<lparr>ok = False, status = 502, statusText = ''Bad Gateway'', body = None\<rparr>"]
  note two = upstream_failure_reported [where u = ?u and h = ?h and t = ?t
      and S = sample_stringify and now = 1719676117000 and env = no_environment
      and req = sample_request
      and r = "\<lparr>ok = True, status = 200, statusText = ''OK'', body = None\<rparr>"]
  have a: "handler sample_stringify 1719676117000 no_environment sample_request
       (Rejects (Error ''fetch failed''))
     = [WriteHead 200 stream_headers, Fetch ?u ?h ?t,
        Write (sample_stringify (errorData 1719676117000 (Error ''fetch failed'')) @ [newline]),
        End]"
    using one [THEN conjunct1] made by blast
  have b: "handler sample_stringify 1719676117000 no_environment sample_request
       (Resolves \<lparr>ok = False, status = 502, statusText = ''Bad Gateway'', body = None\<rparr>)
     = [WriteHead 200 stream_headers, Fetch ?u ?h ?t,
        Write (sample_stringify
                 (errorData 1719676117000 (Error ''Agent proxy error: 502 Bad Gateway''))
               @ [newline]),
        End]"
    using one [THEN conjunct2, THEN conjunct1] made by (simp add: d)
  have c: "handler sample_stringify 1719676117000 no_environment sample_request
       (Resolves \<lparr>ok = True, status = 200, statusText = ''OK'', body = None\<rparr>)
     = [WriteHead 200 stream_headers, Fetch ?u ?h ?t,
        Write (sample_stringify
                 (errorData 1719676117000 (Error ''No response stream available from agent''))
               @ [newline]),
        End]"
    using two [THEN conjunct2, THEN conjunct2, THEN conjunct1] made by simp
  have e: "\<exists>tr. handler sample_stringify 1719676117000 no_environment sample_request
            (Rejects (Error ''fetch failed''))
          = tr @ [End] \<and> End \<notin> set tr"
    using one [THEN conjunct2, THEN conjunct2, THEN conjunct2, THEN conjunct2, THEN conjunct2,
        THEN conjunct1] opened
    by blast
  show ?thesis
    by (intro conjI a b c e)
qed

lemma handler_wrong_method:
  "req_method req \<noteq> Some ''POST'' \<Longrightarrow> handler S now env req f = reject 405 ''Method not allowed''"
  by (simp add: handler_def)

lemma handler_bad_message:
  assumes "req_method req = Some ''POST''" and "req_body req = Some b"
    and "message b = None
       \<or> (\<exists>v. message b = Some v \<and> (\<forall>s. v \<noteq> JStr s))
       \<or> (\<exists>s. message b = Some (JStr s) \<and> trim s = [])"
  shows "handler S now env req f
     = reject 400 ''Message is required and must be a non-empty string''"
  using assms by (auto simp: handler_def handle_body_def split: option.splits json.splits)

lemma or_string_blank:
  "a \<in> {None, Some []} \<Longrightarrow> or_string a b = b"
  by (cases a) auto

lemma stream_to_no_base:
  assumes "optional (agent_config b) base_url \<in> {None, Some []}"
    and "AGENT_BASE_URL env \<in> {None, Some []}"
    and "AGENT_PROXY_URL env \<in> {None, Some []}"
  shows "stream_to S now env b m f
     = reject 500
         ''Agent configuration missing. AGENT_BASE_URL or AGENT_PROXY_URL environment variable required.''"
proof -
  have "or_string (optional (agent_config b) base_url)
          (or_string (AGENT_BASE_URL env) (AGENT_PROXY_URL env)) = AGENT_PROXY_URL env"
    using assms(1,2) by (simp only: or_string_blank)
  then show ?thesis
    using assms(3) by (auto simp: stream_to_def Let_def)
qed

text \<open>
  What the handler does get right: a method other than \<^verbatim>\<open>POST\<close> is answered with 405;
  when the body can be destructured, a message that is missing, not a string, or blank
  after trimming is answered with 400 (405 when the method is wrong too), and a base
  address found neither in the request nor in the environment with 500 (or with the 405 or
  400 of the earlier checks). Each answer is a JSON object with an \<^verbatim>\<open>error\<close> text, and
  it is all the run does.
\<close>

lemma handler_rejections:
  "(req_method req \<noteq> Some ''POST'' \<longrightarrow>
      handler S now env req f = [StatusJson 405 (JObj [(''error'', JStr ''Method not allowed'')])]) \<and>
   (req_body req = Some b \<and>
      (message b = None
        \<or> (\<exists>v. message b = Some v \<and> (\<forall>s. v \<noteq> JStr s))
        \<or> (\<exists>s. message b = Some (JStr s) \<and> trim s = [])) \<longrightarrow>
      (\<exists>n msg. handler S now env req f = [StatusJson n (JObj [(''error'', JStr msg)])]
         \<and> (n = 405 \<or> n = 400))) \<and>
   (req_body req = Some b \<and>
      optional (agent_config b) base_url \<in> {None, Some []}
      \<and> AGENT_BASE_URL env \<in> {None, Some []} \<and> AGENT_PROXY_URL env \<in> {None, Some []} \<longrightarrow>
      (\<exists>n msg. handler S now env req f = [StatusJson n (JObj [(''error'', JStr msg)])]
         \<and> (n = 405 \<or> n = 400 \<or> n = 500)))"
proof (intro conjI impI)
  assume "req_method req \<noteq> Some ''POST''"
  then show "handler S now env req f
      = [StatusJson 405 (JObj [(''error'', JStr ''Method not allowed'')])]"
    by (simp add: handler_wrong_method reject_def)
next
  assume a: "req_body req = Some b \<and>
      (message b = None
        \<or> (\<exists>v. message b = Some v \<and> (\<forall>s. v \<noteq> JStr s))
        \<or> (\<exists>s. message b = Some (JStr s) \<and> trim s = []))"
  then have b: "req_body req = Some b"
    and bad: "message b = None
        \<or> (\<exists>v. message b = Some v \<and> (\<forall>s. v \<noteq> JStr s))
        \<or> (\<exists>s. message b = Some (JStr s) \<and> trim s = [])"
    by blast+
  show "\<exists>n msg. handler S now env req f = [StatusJson n (JObj [(''error'', JStr msg)])]
         \<and> (n = 405 \<or> n = 400)"
  proof (cases "req_method req = Some ''POST''")
    case True
    then show ?thesis
      using handler_bad_message [OF True b bad, of S now env f] by (simp add: reject_def)
  next
    case False
    then show ?thesis
      by (simp add: handler_wrong_method reject_def)
  qed
next
  assume a: "req_body req = Some b \<and>
      optional (agent_config b) base_url \<in> {None, Some []}
      \<and> AGENT_BASE_URL env \<in> {None, Some []} \<and> AGENT_PROXY_URL env \<in> {None, Some []}"
  then have b: "req_body req = Some b"
    and nb: "optional (agent_config b) base_url \<in> {None, Some []}"
      "AGENT_BASE_URL env \<in> {None, Some []}" "AGENT_PROXY_URL env \<in> {None, Some []}"
    by blast+
  show "\<exists>n msg. handler S now env req f = [StatusJson n (JObj [(''error'', JStr msg)])]
         \<and> (n = 405 \<or> n = 400 \<or> n = 500)"
  proof (cases "req_method req = Some ''POST''")
    case False
    then show ?thesis by (simp add: handler_wrong_method reject_def)
  next
    case True
    show ?thesis
    proof (cases "message b = None
          \<or> (\<exists>v. message b = Some v \<and> (\<forall>s. v \<noteq> JStr s))
          \<or> (\<exists>s. message b = Some (JStr s) \<and> trim s = [])")
      case bad: True
      show ?thesis
        using handler_bad_message [OF True b bad, of S now env f] by (simp add: reject_def)
    next
      case good: False
      then obtain m where m: "message b = Some (JStr m)" "trim m \<noteq> []"
        by (metis not_None_eq)
      then have "m \<noteq> []" by (auto simp: trim_def)
      with True b m have "handler S now env req f = stream_to S now env b m f"
        by (simp add: handler_def handle_body_def)
      then show ?thesis
        using stream_to_no_base [OF nb, of S now m f] by (simp add: reject_def)
    qed
  qed
qed

text \<open>
  C8. The claim fails for a \<^verbatim>\<open>POST\<close> whose body is \<^verbatim>\<open>null\<close>: its message is
  missing, but the handler destructures the body before it checks the message and outside
  any \<^verbatim>\<open>try\<close>, so it throws and answers nothing, where the claim promises a JSON error
  with a 4xx status. No upstream request is made in that run either. The same request
  with an empty object for a body, or with a blank message, is answered with 400, and with
  another method with 405.
\<close>

theorem null_body_not_answered:
  "handler sample_stringify 1719676117000 no_environment
       \<lparr>req_method = Some ''POST'', req_body = None\<rparr> (Rejects NonError)
     = [ThrowsTypeError] \<and>
   handler sample_stringify 1719676117000 no_environment
       \<lparr>req_method = Some ''POST'',
        req_body = Some \<lparr>message = None, timeout = None, agent_config = None\<rparr>\<rparr>
       (Rejects NonError)
     = [StatusJson 400
          (JObj [(''error'', JStr ''Message is required and must be a non-empty string'')])] \<and>
   handler sample_stringify 1719676117000 no_environment
       \<lparr>req_method = Some ''POST'',
        req_body = Some \<lparr>message = Some (JStr ''   ''), timeout = None, agent_config = None\<rparr>\<rparr>
       (Rejects NonError)
     = [StatusJson 400
          (JObj [(''error'', JStr ''Message is required and must be a non-empty string'')])] \<and>
   handler sample_stringify 1719676117000 no_environment
       \<lparr>req_method = Some ''GET'', req_body = None\<rparr> (Rejects NonError)
     = [StatusJson 405 (JObj [(''error'', JStr ''Method not allowed'')])] \<and>
   handler sample_stringify 1719676117000 no_environment
       \<lparr>req_method = Some ''POST'',
        req_body = Some \<lparr>message = Some (JStr ''Deploy nginx''), timeout = None,
                         agent_config = None\<rparr>\<rparr>
       (Rejects NonError)
     = [StatusJson 500 (JObj [(''error'',
          JStr ''Agent configuration missing. AGENT_BASE_URL or AGENT_PROXY_URL environment variable required.'')])]"
  by (simp add: handler_def handle_body_def stream_to_def reject_def no_environment_def
      trim_def is_space_def)

section \<open>Properties of the chat store\<close>

text \<open>
  C9. \<^verbatim>\<open>addMessageAtom\<close> appends: the new list is the old one followed by the new
  message, so it is one longer, its first entries are the old entries in their order, and
  its last entry is the new message.
\<close>

theorem addMessageAtom_appends:
  "chatMessagesAtom (addMessageAtom st m) = chatMessagesAtom st @ [m] \<and>
   length (chatMessagesAtom (addMessageAtom st m)) = Suc (length (chatMessagesAtom st)) \<and>
   take (length (chatMessagesAtom st)) (chatMessagesAtom (addMessageAtom st m))
     = chatMessagesAtom st \<and>
   last (chatMessagesAtom (addMessageAtom st m)) = m"
  by (simp add: addMessageAtom_def)

end
